theory Spec2Isabelle
  imports Complex_Main
begin

section \<open>The parts of Python that \<open>gpu_monitor.py\<close> relies on\<close>

text \<open>
  Exceptions are values. The three \<open>raise\<close> statements of the source keep their messages;
  exceptions raised by built-ins carry a short description of their cause.
\<close>

datatype error =
    ValueError string
  | RuntimeError string
  | OSError string
  | TypeError string
  | UnboundLocalError string
  | StatisticsError string
  | ZeroDivisionError string
  | OverflowError string

text \<open>
  Text read from the file is a list of code points. A \<open>char\<close> has eight bits, so the
  model covers the code points below 256; among them \<open>str.strip()\<close> removes the ASCII
  white space, the separators 28 to 31, NEL (133) and the no-break space (160).
\<close>

definition isspace :: "char \<Rightarrow> bool" where
  "isspace c = (of_char c \<in> set [9, 10, 11, 12, 13, 28, 29, 30, 31, 32, 133, 160 :: nat])"

definition strip :: "string \<Rightarrow> string" where
  "strip s = rev (dropWhile isspace (rev (dropWhile isspace s)))"

definition digit :: "char \<Rightarrow> nat option" where
  "digit c = (let n = of_char c :: nat in if 48 \<le> n \<and> n \<le> 57 then Some (n - 48) else None)"

text \<open>
  The digits of a decimal literal after its first digit: each further digit may be preceded
  by one underscore. The result is the value read so far and the number of digits.
\<close>

fun int_digits :: "nat \<Rightarrow> nat \<Rightarrow> string \<Rightarrow> (nat \<times> nat) option" where
  "int_digits acc k [] = Some (acc, k)"
| "int_digits acc k [c] =
     (case digit c of None \<Rightarrow> None | Some v \<Rightarrow> Some (10 * acc + v, Suc k))"
| "int_digits acc k (c # d # cs) =
     (if c = CHR ''_'' then
        (case digit d of None \<Rightarrow> None | Some v \<Rightarrow> int_digits (10 * acc + v) (Suc k) cs)
      else
        (case digit c of None \<Rightarrow> None | Some v \<Rightarrow> int_digits (10 * acc + v) (Suc k) (d # cs)))"

text \<open>
  The white space that \<open>int\<close> itself skips around a literal: as above, without the
  separators 28 to 31.
\<close>

definition int_isspace :: "char \<Rightarrow> bool" where
  "int_isspace c = (of_char c \<in> set [9, 10, 11, 12, 13, 32, 133, 160 :: nat])"

text \<open>The default of \<open>sys.get_int_max_str_digits()\<close>.\<close>

definition int_max_str_digits :: nat where
  "int_max_str_digits = 4300"

text \<open>
  \<open>int(s)\<close> for a string \<open>s\<close>, base 10: surrounding white space is skipped, then an
  optional sign, then digits with single underscores between them. Anything else raises
  \<open>ValueError\<close>, and so does a literal of more than \<open>int_max_str_digits\<close> digits.
\<close>

definition py_int :: "string \<Rightarrow> error + int" where
  "py_int s =
     (let t = rev (dropWhile int_isspace (rev (dropWhile int_isspace s)));
          neg = (case t of [] \<Rightarrow> False | c # _ \<Rightarrow> c = CHR ''-'');
          u = (case t of [] \<Rightarrow> [] | c # cs \<Rightarrow> if c = CHR ''-'' \<or> c = CHR ''+'' then cs else t)
      in case u of
           [] \<Rightarrow> Inl (ValueError ''invalid literal for int() with base 10'')
         | c # cs \<Rightarrow>
             (case digit c of
                None \<Rightarrow> Inl (ValueError ''invalid literal for int() with base 10'')
              | Some v \<Rightarrow>
                  (case int_digits v 1 cs of
                     None \<Rightarrow> Inl (ValueError ''invalid literal for int() with base 10'')
                   | Some (n, k) \<Rightarrow>
                       if k > int_max_str_digits
                       then Inl (ValueError ''Exceeds the limit for integer string conversion'')
                       else Inr (if neg then - int n else int n))))"

text \<open>
  Floats are IEEE doubles, modelled by the real numbers they denote. Converting an exact
  value to a float rounds it to the nearest double, ties to even: around \<open>x\<close> the doubles
  are the multiples of \<open>double_ulp x\<close> (53 significant bits, least exponent -1022). A value
  that rounds beyond the largest double, that is one of magnitude \<open>2^1024 - 2^970\<close> or
  more, raises \<open>OverflowError\<close>.
\<close>

definition round_half_even :: "real \<Rightarrow> int" where
  "round_half_even x =
     (let f = \<lfloor>x\<rfloor>; r = x - of_int f
      in if r < 1 / 2 then f else if 1 / 2 < r then f + 1 else if even f then f else f + 1)"

definition double_ulp :: "real \<Rightarrow> real" where
  "double_ulp x = 2 powr (of_int (max \<lfloor>log 2 \<bar>x\<bar>\<rfloor> (- 1022)) - 52)"

definition nearest_double :: "real \<Rightarrow> real" where
  "nearest_double x =
     (if x = 0 then 0 else of_int (round_half_even (x / double_ulp x)) * double_ulp x)"

definition to_float :: "real \<Rightarrow> error + real" where
  "to_float x =
     (if 2 ^ 1024 - 2 ^ 970 \<le> \<bar>x\<bar> then Inl (OverflowError ''integer division result too large for a float'')
      else Inr (nearest_double x))"

text \<open>
  \<open>statistics.mean\<close>, \<open>max\<close> and \<open>statistics.stdev\<close> on a list of integers, as in
  CPython 3.11 and later. The library works on exact fractions. The mean is the fraction
  \<open>sx / n\<close>: returned as the integer it is when \<open>n\<close> divides \<open>sx\<close>, converted to a float
  otherwise. The sum of squared deviations is \<open>(n * sxx - sx * sx) / n\<close>, divided by
  \<open>n - 1\<close> for the sample variance, and \<open>stdev\<close> returns its square root as a float,
  correctly rounded.
\<close>

definition statistics_mean :: "int list \<Rightarrow> error + real" where
  "statistics_mean xs =
     (if xs = [] then Inl (StatisticsError ''mean requires at least one data point'')
      else if int (length xs) dvd sum_list xs
      then Inr (of_int (sum_list xs div int (length xs)))
      else to_float (real_of_int (sum_list xs) / real (length xs)))"

definition py_max :: "int list \<Rightarrow> error + int" where
  "py_max xs =
     (case xs of
        [] \<Rightarrow> Inl (ValueError ''max() arg is an empty sequence'')
      | x # ys \<Rightarrow> Inr (foldl (\<lambda>m y. if y > m then y else m) x ys))"

definition statistics_stdev :: "int list \<Rightarrow> error + real" where
  "statistics_stdev xs =
     (let n = length xs;
          sx = sum_list xs;
          sxx = sum_list (map (\<lambda>x. x * x) xs)
      in if n < 2 then Inl (StatisticsError ''stdev requires at least two data points'')
         else to_float (sqrt (real_of_int (int n * sxx - sx * sx) / real n / real (n - 1))))"

section \<open>The environment\<close>

text \<open>
  What the program observes of the outside world at one moment: the wall clock
  (\<open>time.time()\<close>), whether a path exists (\<open>os.path.exists\<close>), and what opening and
  reading a path gives: its text, or the exception raised.
\<close>

datatype file_read = Raises error | Contents string

record env =
  now :: real
  path_exists :: "string \<Rightarrow> bool"
  read_file :: "string \<Rightarrow> file_read"

text \<open>Calls to the module's logger, in the order they are made.\<close>

datatype level = DEBUG | INFO | WARNING | ERROR

datatype message =
    Load_file_not_found string
  | Monitoring_thread_error error
  | Started_monitoring real
  | Stopped_monitoring
  | Reading_error error

type_synonym log_entry = "level \<times> message"

section \<open>\<open>FastGPUMonitor\<close>\<close>

text \<open>
  The thread object running \<open>_monitor\<close>: the statement it executes next and the local
  variables of \<open>_monitor\<close>, unbound (\<open>None\<close>) until assigned. The statements are
  \<open>Init\<close>, the assignment to \<open>self.start_time\<close>; \<open>LoopTest\<close>, the test of the \<open>while\<close>;
  \<open>ReadFile\<close>, the \<open>with\<close> block that reads and parses the file; \<open>Stamp\<close>, the
  assignment to \<open>timestamp\<close>; \<open>Append\<close>; \<open>Sleep\<close>; and \<open>Handler x\<close>, the \<open>except\<close>
  clause entered with exception \<open>x\<close>. \<open>Finished r\<close> is a thread that has ended, with the
  exception that escaped \<open>_monitor\<close>, if any.
\<close>

datatype pc =
    Init
  | LoopTest
  | ReadFile
  | Stamp
  | Append
  | Sleep
  | Handler error
  | Finished "error option"

record monitor_thread =
  pc :: pc
  gpu_util :: "int option"
  timestamp :: "real option"

record sampler =
  interval :: real
  utilization_data :: "(real \<times> int) list"
  stop_event :: bool
  start_time :: "real option"
  gpu_load_path :: string
  thread :: "monitor_thread option"

definition is_alive :: "monitor_thread \<Rightarrow> bool" where
  "is_alive t = (case pc t of Finished _ \<Rightarrow> False | _ \<Rightarrow> True)"

text \<open>The test \<open>self.thread is not None and self.thread.is_alive()\<close>.\<close>

definition running :: "sampler \<Rightarrow> bool" where
  "running s = (case thread s of None \<Rightarrow> False | Some t \<Rightarrow> is_alive t)"

definition init :: "env \<Rightarrow> real \<Rightarrow> (error + sampler) \<times> log_entry list" where
  "init e i =
     (if i \<le> 0 then (Inl (ValueError ''Interval must be positive''), [])
      else
        let s = \<lparr> interval = i, utilization_data = [], stop_event = False, start_time = None,
                  gpu_load_path = ''/sys/class/devfreq/17000000.gpu/device/load'',
                  thread = None \<rparr>
        in (Inr s,
            if \<not> path_exists e (gpu_load_path s)
            then [(WARNING, Load_file_not_found (gpu_load_path s))] else []))"

text \<open>\<open>int(f.read().strip())\<close> inside \<open>with open(self.gpu_load_path, 'r') as f\<close>.\<close>

definition read_load :: "env \<Rightarrow> sampler \<Rightarrow> error + int" where
  "read_load e s =
     (case read_file e (gpu_load_path s) of
        Raises x \<Rightarrow> Inl x
      | Contents txt \<Rightarrow> py_int (strip txt))"

text \<open>
  \<open>time.sleep\<close> takes its argument as a whole number of nanoseconds, rounded away from
  zero, in a signed 64-bit integer: a length that does not fit raises \<open>OverflowError\<close>,
  and one that fits and is negative raises \<open>ValueError\<close>.
\<close>

definition sleep_error :: "real \<Rightarrow> error option" where
  "sleep_error secs =
     (let ns = (if 0 \<le> secs then \<lceil>secs * 10 ^ 9\<rceil> else \<lfloor>secs * 10 ^ 9\<rfloor>)
      in if ns < - (2 ^ 63) \<or> 2 ^ 63 \<le> ns
         then Some (OverflowError ''timestamp too large to convert to C PyTime_t'')
         else if ns < 0 then Some (ValueError ''sleep length must be non-negative'')
         else None)"

text \<open>
  One step of the thread running \<open>_monitor\<close>, in the environment of that moment. An
  exception raised inside the \<open>try\<close> region moves control to the handler; the handler
  logs, appends and lets the thread end, and its own reference to an unbound \<open>timestamp\<close>
  raises \<open>UnboundLocalError\<close>, which ends the thread with that exception.
\<close>

definition monitor_step :: "env \<Rightarrow> sampler \<Rightarrow> sampler \<times> log_entry list" where
  "monitor_step e s =
     (case thread s of
        None \<Rightarrow> (s, [])
      | Some t \<Rightarrow>
          (case pc t of
             Init \<Rightarrow>
               (s\<lparr>start_time := Some (now e), thread := Some (t\<lparr>pc := LoopTest\<rparr>)\<rparr>, [])
           | LoopTest \<Rightarrow>
               (if stop_event s then (s\<lparr>thread := Some (t\<lparr>pc := Finished None\<rparr>)\<rparr>, [])
                else (s\<lparr>thread := Some (t\<lparr>pc := ReadFile\<rparr>)\<rparr>, []))
           | ReadFile \<Rightarrow>
               (case read_load e s of
                  Inl x \<Rightarrow> (s\<lparr>thread := Some (t\<lparr>pc := Handler x\<rparr>)\<rparr>, [])
                | Inr v \<Rightarrow> (s\<lparr>thread := Some (t\<lparr>gpu_util := Some v, pc := Stamp\<rparr>)\<rparr>, []))
           | Stamp \<Rightarrow>
               (case start_time s of
                  None \<Rightarrow>
                    (s\<lparr>thread := Some (t\<lparr>pc := Handler (TypeError ''unsupported operand'')\<rparr>)\<rparr>, [])
                | Some st \<Rightarrow>
                    (s\<lparr>thread := Some (t\<lparr>timestamp := Some (now e - st), pc := Append\<rparr>)\<rparr>, []))
           | Append \<Rightarrow>
               (case (timestamp t, gpu_util t) of
                  (Some ts, Some v) \<Rightarrow>
                    (s\<lparr>utilization_data := utilization_data s @ [(ts, v)],
                       thread := Some (t\<lparr>pc := Sleep\<rparr>)\<rparr>, [])
                | _ \<Rightarrow>
                    (s\<lparr>thread := Some (t\<lparr>pc := Handler (UnboundLocalError ''local variable'')\<rparr>)\<rparr>,
                     []))
           | Sleep \<Rightarrow>
               (case sleep_error (interval s) of
                  Some x \<Rightarrow> (s\<lparr>thread := Some (t\<lparr>pc := Handler x\<rparr>)\<rparr>, [])
                | None \<Rightarrow> (s\<lparr>thread := Some (t\<lparr>pc := LoopTest\<rparr>)\<rparr>, []))
           | Handler x \<Rightarrow>
               (case timestamp t of
                  None \<Rightarrow>
                    (s\<lparr>thread := Some (t\<lparr>pc := Finished (Some (UnboundLocalError ''timestamp''))\<rparr>)\<rparr>,
                     [(ERROR, Monitoring_thread_error x)])
                | Some ts \<Rightarrow>
                    (s\<lparr>utilization_data := utilization_data s @ [(ts, 0)],
                       thread := Some (t\<lparr>pc := Finished None\<rparr>)\<rparr>,
                     [(ERROR, Monitoring_thread_error x)]))
           | Finished r \<Rightarrow> (s, [])))"

text \<open>The thread scheduled for a number of steps, one environment per step.\<close>

fun run :: "env list \<Rightarrow> sampler \<Rightarrow> sampler \<times> log_entry list" where
  "run [] s = (s, [])"
| "run (e # es) s =
     (case monitor_step e s of (s1, l1) \<Rightarrow> (case run es s1 of (s2, l2) \<Rightarrow> (s2, l1 @ l2)))"

definition new_thread :: monitor_thread where
  "new_thread = \<lparr> pc = Init, gpu_util = None, timestamp = None \<rparr>"

text \<open>
  \<open>start\<close>. Its last statement formats \<open>1/self.interval\<close> for the debug message, after
  the thread has been launched; on an interval of 0 the division raises.
\<close>

definition start :: "sampler \<Rightarrow> (error + unit) \<times> sampler \<times> log_entry list" where
  "start s =
     (if running s then (Inl (RuntimeError ''Monitoring is already running''), s, [])
      else
        let s' = s\<lparr>utilization_data := [], stop_event := False, thread := Some new_thread\<rparr>
        in if interval s = 0 then (Inl (ZeroDivisionError ''division by zero''), s', [])
           else (Inr (), s', [(DEBUG, Started_monitoring (1 / interval s))]))"

text \<open>
  \<open>self.thread.join()\<close>: the caller waits while the thread takes its steps, in the
  environments \<open>es i\<close>, \<open>es (i + 1)\<close>, ... A join that never returns is \<open>None\<close>.
\<close>

partial_function (option) join ::
  "(nat \<Rightarrow> env) \<Rightarrow> nat \<Rightarrow> sampler \<Rightarrow> log_entry list \<Rightarrow> (sampler \<times> log_entry list) option" where
  "join es i s l =
     (if running s
      then (case monitor_step (es i) s of (s1, l1) \<Rightarrow> join es (Suc i) s1 (l @ l1))
      else Some (s, l))"

text \<open>
  \<open>stop\<close>. The thread runs concurrently: it takes \<open>k\<close> steps between the test of
  \<open>is_alive\<close> and \<open>stop_event.set()\<close>, and the steps after that are those of \<open>join\<close>.
\<close>

definition stop ::
  "nat \<Rightarrow> (nat \<Rightarrow> env) \<Rightarrow> sampler \<Rightarrow> ((error + unit) \<times> sampler \<times> log_entry list) option" where
  "stop k es s =
     (if \<not> running s then Some (Inl (RuntimeError ''Monitoring is not running''), s, [])
      else
        (case run (map es [0..<k]) s of
           (s1, l1) \<Rightarrow>
             (case join es k (s1\<lparr>stop_event := True\<rparr>) l1 of
                None \<Rightarrow> None
              | Some (s2, l2) \<Rightarrow> Some (Inr (), s2, l2 @ [(DEBUG, Stopped_monitoring)]))))"

definition get_current_utilization :: "env \<Rightarrow> sampler \<Rightarrow> (error + int) \<times> sampler \<times> log_entry list" where
  "get_current_utilization e s =
     (case read_load e s of
        Inr v \<Rightarrow> (Inr v, s, [])
      | Inl x \<Rightarrow> (Inr 0, s, [(ERROR, Reading_error x)]))"

definition get_stats :: "sampler \<Rightarrow> (error + real \<times> int \<times> real \<times> nat) \<times> sampler" where
  "get_stats s =
     (if utilization_data s = [] then (Inr (0, 0, 0, 0), s)
      else
        let util_values = map snd (utilization_data s) in
        (case statistics_mean util_values of
           Inl x \<Rightarrow> (Inl x, s)
         | Inr avg_util \<Rightarrow>
             (case py_max util_values of
                Inl x \<Rightarrow> (Inl x, s)
              | Inr max_util \<Rightarrow>
                  (case (if length util_values > 1 then statistics_stdev util_values else Inr 0) of
                     Inl x \<Rightarrow> (Inl x, s)
                   | Inr std_dev \<Rightarrow>
                       (Inr (avg_util, max_util, std_dev, length util_values), s)))))"

definition get_data :: "sampler \<Rightarrow> (real \<times> int) list \<times> sampler" where
  "get_data s = (utilization_data s, s)"

definition is_running :: "sampler \<Rightarrow> bool \<times> sampler" where
  "is_running s = (running s, s)"

section \<open>Schedules\<close>

text \<open>
  The caller and the thread interleave. A schedule lists, in order, the steps of the thread
  (each with the environment of its moment), the calls of \<open>start\<close>, and the moments at
  which a \<open>stop\<close> sets the stop event; the accessors change nothing and are left out.
\<close>

datatype action = Thread_step env | Call_start | Set_stop_event

fun exec :: "action list \<Rightarrow> sampler \<Rightarrow> sampler" where
  "exec [] s = s"
| "exec (Thread_step e # as) s = exec as (fst (monitor_step e s))"
| "exec (Call_start # as) s = exec as (fst (snd (start s)))"
| "exec (Set_stop_event # as) s = exec as (s\<lparr>stop_event := True\<rparr>)"

text \<open>The clock readings of a schedule: the clock at each step of the thread.\<close>

fun clock :: "action list \<Rightarrow> real list" where
  "clock [] = []"
| "clock (Thread_step e # as) = now e # clock as"
| "clock (Call_start # as) = clock as"
| "clock (Set_stop_event # as) = clock as"

text \<open>
  How many steps the thread still takes once the stop event is set: the measure by which
  \<open>join\<close> returns.
\<close>

definition stop_rank :: "sampler \<Rightarrow> nat" where
  "stop_rank s =
     (case thread s of
        None \<Rightarrow> 0
      | Some t \<Rightarrow>
          (case pc t of
             Finished _ \<Rightarrow> 0 | LoopTest \<Rightarrow> 1 | Handler _ \<Rightarrow> 1 | Sleep \<Rightarrow> 2 | Init \<Rightarrow> 2
           | Append \<Rightarrow> 3 | Stamp \<Rightarrow> 4 | ReadFile \<Rightarrow> 5))"

definition past_init :: "sampler \<Rightarrow> bool" where
  "past_init s = (case thread s of None \<Rightarrow> False | Some t \<Rightarrow> pc t \<noteq> Init)"

text \<open>
  The invariant behind the order of the timestamps, for a clock that has reached \<open>lo\<close>:
  the data are sorted, and inside the loop no sample is later than the thread's
  \<open>timestamp\<close>, which is not later than the clock.
\<close>

definition timestamps_inv ::
  "real \<Rightarrow> (real \<times> int) list \<Rightarrow> real option \<Rightarrow> monitor_thread option \<Rightarrow> bool" where
  "timestamps_inv lo d st0 th =
     (sorted (map fst d) \<and>
      (case th of
         None \<Rightarrow> True
       | Some t \<Rightarrow>
           (case pc t of
              Finished _ \<Rightarrow> True
            | Init \<Rightarrow> d = [] \<and> timestamp t = None
            | _ \<Rightarrow>
                (case st0 of
                   None \<Rightarrow> False
                 | Some st \<Rightarrow>
                     (case timestamp t of
                        None \<Rightarrow> d = []
                      | Some ts \<Rightarrow> ts \<le> lo - st \<and> (\<forall>x\<in>set d. fst x \<le> ts))))))"

definition session_inv :: "real \<Rightarrow> sampler \<Rightarrow> bool" where
  "session_inv lo s = timestamps_inv lo (utilization_data s) (start_time s) (thread s)"

section \<open>The specification's notions\<close>

text \<open>The documented range of a utilization value, 0 to 1000.\<close>

definition valid_utilization :: "int \<Rightarrow> bool" where
  "valid_utilization v = (0 \<le> v \<and> v \<le> 1000)"



section \<open>Concrete inputs\<close>

definition example_env :: "real \<Rightarrow> file_read \<Rightarrow> env" where
  "example_env t f = \<lparr> now = t, path_exists = (\<lambda>_. False), read_file = (\<lambda>_. f) \<rparr>"

definition example_sampler :: sampler where
  "example_sampler =
     \<lparr> interval = 1 / 100, utilization_data = [], stop_event = False, start_time = None,
       gpu_load_path = ''/sys/class/devfreq/17000000.gpu/device/load'', thread = None \<rparr>"

definition stats_sampler :: sampler where
  "stats_sampler =
     example_sampler\<lparr>utilization_data := [(1 / 100, 200), (2 / 100, 400), (3 / 100, 600)]\<rparr>"


definition started_sampler :: sampler where
  "started_sampler = fst (snd (start example_sampler))"

text \<open>A sampler in its loop, about to read the file, one sample taken.\<close>

definition reading_sampler :: sampler where
  "reading_sampler =
     \<lparr> interval = 1 / 100, utilization_data = [(1, 500)], stop_event = False,
       start_time = Some 10,
       gpu_load_path = ''/sys/class/devfreq/17000000.gpu/device/load'',
       thread = Some \<lparr> pc = ReadFile, gpu_util = Some 500, timestamp = Some 1 \<rparr> \<rparr>"

text \<open>
  Twelve steps of the thread: the file reads 500 once, then it is gone and stays gone.
\<close>

definition failing_trace :: "env list" where
  "failing_trace =
     [example_env 10 (Contents ''500''), example_env 10 (Contents ''500''),
      example_env 11 (Contents ''500''), example_env 11 (Contents ''500''),
      example_env 11 (Contents ''500''), example_env 11 (Contents ''500''),
      example_env 12 (Contents ''500''),
      example_env 12 (Raises (OSError ''No such file or directory'')),
      example_env 12 (Raises (OSError ''No such file or directory'')),
      example_env 13 (Raises (OSError ''No such file or directory'')),
      example_env 13 (Raises (OSError ''No such file or directory'')),
      example_env 13 (Raises (OSError ''No such file or directory''))]"

text \<open>A session whose wall clock is set back from 105 to 102 between two samples.\<close>

definition backwards_trace :: "action list" where
  "backwards_trace =
     [Call_start,
      Thread_step (example_env 100 (Contents ''500'')),
      Thread_step (example_env 100 (Contents ''500'')),
      Thread_step (example_env 100 (Contents ''500'')),
      Thread_step (example_env 105 (Contents ''500'')),
      Thread_step (example_env 105 (Contents ''500'')),
      Thread_step (example_env 105 (Contents ''500'')),
      Thread_step (example_env 105 (Contents ''500'')),
      Thread_step (example_env 105 (Contents ''500'')),
      Thread_step (example_env 102 (Contents ''500'')),
      Thread_step (example_env 102 (Contents ''500''))]"

text \<open>
  A sampler after the session above: its thread has ended, its data are out of order and
  its clock stood at 102.
\<close>

definition finished_sampler :: sampler where
  "finished_sampler =
     \<lparr> interval = 1 / 100, utilization_data = [(5, 500), (2, 500)], stop_event = True,
       start_time = Some 100,
       gpu_load_path = ''/sys/class/devfreq/17000000.gpu/device/load'',
       thread = Some \<lparr> pc = Finished None, gpu_util = Some 500, timestamp = Some 2 \<rparr> \<rparr>"

text \<open>
  The steps of a later session, on a clock that starts again at 50 and runs forward: one
  sample, then a failed read, with a stop in between.
\<close>

definition second_session :: "action list" where
  "second_session =
     [Thread_step (example_env 50 (Contents ''500'')),
      Thread_step (example_env 50 (Contents ''500'')),
      Thread_step (example_env 50 (Contents ''500'')),
      Thread_step (example_env 53 (Contents ''500'')),
      Thread_step (example_env 53 (Contents ''500'')),
      Thread_step (example_env 53 (Contents ''500'')),
      Thread_step (example_env 53 (Contents ''500'')),
      Thread_step (example_env 54 (Contents ''n/a'')),
      Set_stop_event,
      Thread_step (example_env 54 (Contents ''n/a''))]"



definition steady_env :: "nat \<Rightarrow> env" where
  "steady_env n = example_env (real n) (Contents ''500'')"

section \<open>Floats\<close>


lemma round_half_even_error: "\<bar>of_int (round_half_even y) - y\<bar> \<le> 1 / 2"
  unfolding round_half_even_def Let_def by (auto; linarith)

lemma double_ulp_pos: "0 < double_ulp x"
  by (simp add: double_ulp_def)

text \<open>The double nearest to \<open>x\<close> is within half a unit in the last place of \<open>x\<close>.\<close>

lemma nearest_double_error: "\<bar>nearest_double x - x\<bar> \<le> double_ulp x / 2"
proof (cases "x = 0")
  case True
  then show ?thesis using double_ulp_pos [of x] by (simp add: nearest_double_def)
next
  case False
  let ?u = "double_ulp x"
  have u: "0 < ?u" by (rule double_ulp_pos)
  have "nearest_double x - x = (of_int (round_half_even (x / ?u)) - x / ?u) * ?u"
    using False u by (simp add: nearest_double_def field_simps)
  then have "\<bar>nearest_double x - x\<bar> = \<bar>of_int (round_half_even (x / ?u)) - x / ?u\<bar> * ?u"
    using u by (simp add: abs_mult)
  also have "\<dots> \<le> (1 / 2) * ?u"
    using round_half_even_error [of "x / ?u"] u by (intro mult_right_mono) simp_all
  finally show ?thesis by simp
qed




section \<open>Statistics\<close>
















section \<open>Construction and the accessors\<close>

text \<open>
  Claim C6. Construction succeeds for every interval above 0 and fails with the
  \<open>ValueError\<close> "Interval must be positive" (the specification's InvalidConfiguration) for
  every interval that is 0 or less; when the load file does not exist the constructor
  still succeeds and only logs a warning.
\<close>

theorem init_interval:
  "(0 < i \<longrightarrow> (\<exists>s l. init e i = (Inr s, l) \<and> interval s = i)) \<and>
   (i \<le> 0 \<longrightarrow> init e i = (Inl (ValueError ''Interval must be positive''), [])) \<and>
   (0 < i \<and> \<not> path_exists e ''/sys/class/devfreq/17000000.gpu/device/load'' \<longrightarrow>
      (\<exists>s. init e i =
         (Inr s, [(WARNING, Load_file_not_found ''/sys/class/devfreq/17000000.gpu/device/load'')])))"
  by (simp add: init_def Let_def)

theorem init_interval_witness:
  "(0::real) < 1 / 100 \<and>
   \<not> path_exists (example_env 0 (Raises (OSError ''No such file or directory'')))
        ''/sys/class/devfreq/17000000.gpu/device/load'' \<and>
   (\<exists>s. init (example_env 0 (Raises (OSError ''No such file or directory''))) (1 / 100) =
      (Inr s, [(WARNING, Load_file_not_found ''/sys/class/devfreq/17000000.gpu/device/load'')])) \<and>
   (0::real) \<le> 0 \<and>
   init (example_env 0 (Contents ''500'')) 0 = (Inl (ValueError ''Interval must be positive''), [])"
  using init_interval [of "1 / 100" "example_env 0 (Raises (OSError ''No such file or directory''))"]
        init_interval [of 0 "example_env 0 (Contents ''500'')"]
  by (simp add: example_env_def)

text \<open>
  Claim C9. A sampler that has just been constructed, before any \<open>start\<close>, is not running,
  has no data, and its statistics are \<open>(0, 0, 0, 0)\<close>.
\<close>

theorem fresh_sampler_idle:
  "init e i = (Inr s, l) \<Longrightarrow>
     fst (is_running s) = False \<and> fst (get_data s) = [] \<and> get_stats s = (Inr (0, 0, 0, 0), s)"
  by (auto simp: init_def Let_def is_running_def running_def get_data_def get_stats_def
           split: if_splits)

theorem fresh_sampler_idle_witness:
  "init (example_env 0 (Contents ''500'')) (1 / 100) =
     (Inr example_sampler,
      [(WARNING, Load_file_not_found ''/sys/class/devfreq/17000000.gpu/device/load'')]) \<and>
   fst (is_running example_sampler) = False \<and> fst (get_data example_sampler) = [] \<and>
   get_stats example_sampler = (Inr (0, 0, 0, 0), example_sampler)"
proof -
  have h: "init (example_env 0 (Contents ''500'')) (1 / 100) =
     (Inr example_sampler,
      [(WARNING, Load_file_not_found ''/sys/class/devfreq/17000000.gpu/device/load'')])"
    by (simp add: init_def example_env_def example_sampler_def)
  show ?thesis using h fresh_sampler_idle [OF h] by simp
qed

text \<open>
  Claim C10. \<open>get_data\<close>, \<open>get_stats\<close>, \<open>is_running\<close> and \<open>get_current_utilization\<close> return
  the sampler exactly as they received it, in every state: sample sequence, interval,
  source path, start instant, stop signal and thread handle are all unchanged.
\<close>

theorem accessors_frame:
  "snd (get_data s) = s \<and> snd (get_stats s) = s \<and> snd (is_running s) = s \<and>
   fst (snd (get_current_utilization e s)) = s"
  by (simp add: get_data_def get_stats_def is_running_def get_current_utilization_def Let_def
           split: sum.splits)

text \<open>
  Claim C5, as amended. \<open>get_current_utilization\<close> reads the file once, whatever the state
  of the loop: when the text is an integer after trimming white space it returns that
  integer, whatever its value (no range is enforced); when the read raises or the text
  is not an integer it returns 0; it never raises.
\<close>

theorem get_current_utilization_read:
  "(read_file e (gpu_load_path s) = Contents txt \<and> py_int (strip txt) = Inr n \<longrightarrow>
      fst (get_current_utilization e s) = Inr n) \<and>
   (read_file e (gpu_load_path s) = Raises x \<longrightarrow> fst (get_current_utilization e s) = Inr 0) \<and>
   (read_file e (gpu_load_path s) = Contents txt \<and> py_int (strip txt) = Inl x \<longrightarrow>
      fst (get_current_utilization e s) = Inr 0) \<and>
   (\<exists>v. fst (get_current_utilization e s) = Inr v) \<and>
   (gpu_load_path s' = gpu_load_path s \<longrightarrow>
      fst (get_current_utilization e s') = fst (get_current_utilization e s))"
  by (auto simp: get_current_utilization_def read_load_def split: sum.splits file_read.splits)

theorem get_current_utilization_read_witness:
  "read_file (example_env 0 (Contents ''500\<newline>'')) (gpu_load_path example_sampler) =
     Contents ''500\<newline>'' \<and>
   py_int (strip ''500\<newline>'') = Inr 500 \<and>
   fst (get_current_utilization (example_env 0 (Contents ''500\<newline>'')) example_sampler) = Inr 500 \<and>
   read_file (example_env 0 (Raises (OSError ''No such file or directory'')))
     (gpu_load_path example_sampler) = Raises (OSError ''No such file or directory'') \<and>
   fst (get_current_utilization (example_env 0 (Raises (OSError ''No such file or directory'')))
     example_sampler) = Inr 0"
proof -
  have a: "read_file (example_env 0 (Contents ''500\<newline>'')) (gpu_load_path example_sampler) =
             Contents ''500\<newline>'' \<and> py_int (strip ''500\<newline>'') = Inr 500"
    by (simp add: example_env_def py_int_def strip_def isspace_def int_isspace_def digit_def
          int_max_str_digits_def)
  have b: "read_file (example_env 0 (Raises (OSError ''No such file or directory'')))
             (gpu_load_path example_sampler) = Raises (OSError ''No such file or directory'')"
    by (simp add: example_env_def)
  have "fst (get_current_utilization (example_env 0 (Contents ''500\<newline>'')) example_sampler) =
          Inr 500"
    by (rule get_current_utilization_read [THEN conjunct1, THEN mp, OF a])
  moreover
  have "fst (get_current_utilization (example_env 0 (Raises (OSError ''No such file or directory'')))
          example_sampler) = Inr 0"
    by (rule get_current_utilization_read [THEN conjunct2, THEN conjunct1, THEN mp, OF b])
  ultimately show ?thesis using a b by simp
qed

text \<open>
  Claim C5 as stated fails: a file holding 5000 makes \<open>get_current_utilization\<close> return
  5000, outside 0 to 1000.
\<close>

theorem utilization_range_counterexample:
  "fst (get_current_utilization (example_env 0 (Contents ''5000'')) example_sampler) = Inr 5000 \<and>
   \<not> valid_utilization 5000"
  by (simp add: get_current_utilization_def read_load_def example_env_def py_int_def strip_def
        isspace_def int_isspace_def digit_def int_max_str_digits_def valid_utilization_def)

section \<open>The thread\<close>

lemma now_example_env: "now (example_env t f) = t"
  by (simp add: example_env_def)

lemma read_load_500: "read_load (example_env t (Contents ''500'')) s = Inr 500"
  by (simp add: read_load_def example_env_def py_int_def strip_def isspace_def int_isspace_def digit_def
        int_max_str_digits_def)

lemma sleep_error_example: "sleep_error (1 / 100) = None"
  by (simp add: sleep_error_def)

lemma read_load_raises: "read_load (example_env t (Raises x)) s = Inl x"
  by (simp add: read_load_def example_env_def)

lemma read_load_malformed:
  "read_load (example_env t (Contents ''n/a'')) s =
     Inl (ValueError ''invalid literal for int() with base 10'')"
  by (simp add: read_load_def example_env_def py_int_def strip_def isspace_def int_isspace_def digit_def)

lemma started_sampler_eq:
  "started_sampler =
     \<lparr> interval = 1 / 100, utilization_data = [], stop_event = False, start_time = None,
       gpu_load_path = ''/sys/class/devfreq/17000000.gpu/device/load'',
       thread = Some \<lparr> pc = Init, gpu_util = None, timestamp = None \<rparr> \<rparr>"
  by (simp add: started_sampler_def start_def example_sampler_def running_def new_thread_def
        Let_def)

lemma start_state:
  "\<not> running s \<Longrightarrow>
     fst (snd (start s)) =
       s\<lparr>utilization_data := [], stop_event := False, thread := Some new_thread\<rparr>"
  by (simp add: start_def Let_def)

lemma monitor_step_not_running: "\<not> running s \<Longrightarrow> monitor_step e s = (s, [])"
  by (auto simp: running_def is_alive_def monitor_step_def split: option.splits pc.splits)

lemma run_not_running: "\<not> running s \<Longrightarrow> run es s = (s, [])"
  by (induction es) (simp_all add: monitor_step_not_running)

lemma fst_run_Cons: "fst (run (e # es) s) = fst (run es (fst (monitor_step e s)))"
  by (simp split: prod.splits)

text \<open>
  Claim C1, as amended. When a read fails inside the loop after a successful read of the
  session (so that \<open>timestamp\<close> is bound), the thread logs the error, appends one sample
  with value 0 at that timestamp, and ends: whatever steps it is scheduled for afterwards
  change nothing, no further sample is appended, and the sampler is no longer running.
\<close>

theorem read_failure_ends_loop:
  assumes "thread s = Some t" and "pc t = ReadFile" and "timestamp t = Some ts"
    and "read_load e1 s = Inl x"
  shows "run (e1 # e2 # es) s =
           (s\<lparr>utilization_data := utilization_data s @ [(ts, 0)],
              thread := Some (t\<lparr>pc := Finished None\<rparr>)\<rparr>,
            [(ERROR, Monitoring_thread_error x)]) \<and>
         \<not> running (fst (run (e1 # e2 # es) s))"
proof -
  let ?s2 = "s\<lparr>utilization_data := utilization_data s @ [(ts, 0)],
               thread := Some (t\<lparr>pc := Finished None\<rparr>)\<rparr>"
  have 1: "monitor_step e1 s = (s\<lparr>thread := Some (t\<lparr>pc := Handler x\<rparr>)\<rparr>, [])"
    using assms by (simp add: monitor_step_def)
  have 2: "monitor_step e2 (s\<lparr>thread := Some (t\<lparr>pc := Handler x\<rparr>)\<rparr>) =
             (?s2, [(ERROR, Monitoring_thread_error x)])"
    using assms by (simp add: monitor_step_def)
  have 3: "\<not> running ?s2" by (simp add: running_def is_alive_def)
  from 1 2 run_not_running [OF 3, of es] 3 show ?thesis by simp
qed

theorem read_failure_ends_loop_witness:
  "thread reading_sampler = Some \<lparr> pc = ReadFile, gpu_util = Some 500, timestamp = Some 1 \<rparr> \<and>
   read_load (example_env 12 (Raises (OSError ''No such file or directory''))) reading_sampler =
     Inl (OSError ''No such file or directory'') \<and>
   run [example_env 12 (Raises (OSError ''No such file or directory'')),
        example_env 12 (Raises (OSError ''No such file or directory'')),
        example_env 13 (Raises (OSError ''No such file or directory'')),
        example_env 13 (Raises (OSError ''No such file or directory''))] reading_sampler =
     (\<lparr> interval = 1 / 100, utilization_data = [(1, 500), (1, 0)], stop_event = False,
        start_time = Some 10,
        gpu_load_path = ''/sys/class/devfreq/17000000.gpu/device/load'',
        thread = Some \<lparr> pc = Finished None, gpu_util = Some 500, timestamp = Some 1 \<rparr> \<rparr>,
      [(ERROR, Monitoring_thread_error (OSError ''No such file or directory''))])"
proof -
  have a: "thread reading_sampler =
             Some \<lparr> pc = ReadFile, gpu_util = Some 500, timestamp = Some 1 \<rparr>"
    by (simp add: reading_sampler_def)
  have b: "pc \<lparr> pc = ReadFile, gpu_util = Some 500, timestamp = Some 1 \<rparr> = ReadFile"
    by simp
  have c: "timestamp \<lparr> pc = ReadFile, gpu_util = Some (500::int), timestamp = Some 1 \<rparr> = Some 1"
    by simp
  have d: "read_load (example_env 12 (Raises (OSError ''No such file or directory'')))
             reading_sampler = Inl (OSError ''No such file or directory'')"
    by (rule read_load_raises)
  have e: "reading_sampler\<lparr>utilization_data := utilization_data reading_sampler @ [(1, 0)],
             thread := Some (\<lparr> pc = ReadFile, gpu_util = Some 500, timestamp = Some 1 \<rparr>
                              \<lparr>pc := Finished None\<rparr>)\<rparr> =
           \<lparr> interval = 1 / 100, utilization_data = [(1, 500), (1, 0)], stop_event = False,
             start_time = Some 10,
             gpu_load_path = ''/sys/class/devfreq/17000000.gpu/device/load'',
             thread = Some \<lparr> pc = Finished None, gpu_util = Some 500, timestamp = Some 1 \<rparr> \<rparr>"
    by (simp add: reading_sampler_def)
  note r = read_failure_ends_loop [OF a b c d,
      of "example_env 12 (Raises (OSError ''No such file or directory''))"
         "[example_env 13 (Raises (OSError ''No such file or directory'')),
           example_env 13 (Raises (OSError ''No such file or directory''))]",
      THEN conjunct1, unfolded e]
  show ?thesis by (intro conjI a d r)
qed

text \<open>
  Claim C1 as stated fails: one read of 500 and then a file that stays unavailable. The
  thread appends a single sample of 0 and ends, though nobody has set the stop event: the
  sample sequence is \<open>(1, 500), (1, 0)\<close> however long the schedule goes on.
\<close>

theorem loop_ends_counterexample:
  "run failing_trace started_sampler =
     (\<lparr> interval = 1 / 100, utilization_data = [(1, 500), (1, 0)], stop_event = False,
        start_time = Some 10,
        gpu_load_path = ''/sys/class/devfreq/17000000.gpu/device/load'',
        thread = Some \<lparr> pc = Finished None, gpu_util = Some 500, timestamp = Some 1 \<rparr> \<rparr>,
      [(ERROR, Monitoring_thread_error (OSError ''No such file or directory''))]) \<and>
   \<not> running (fst (run failing_trace started_sampler))"
  by (simp add: failing_trace_def started_sampler_eq monitor_step_def read_load_500
        read_load_raises running_def is_alive_def now_example_env sleep_error_example)

text \<open>
  Claim C8. When the first read of a session fails, the handler is entered with
  \<open>timestamp\<close> never assigned. Its append has no defined elapsed value to use: the
  reference raises \<open>UnboundLocalError\<close>, the thread ends with that exception, and the
  sample sequence stays empty.
\<close>

theorem first_read_failure_unbound:
  assumes "\<not> running s" and "read_load e2 s = Inl x"
  shows "(\<exists>t. thread (fst (run [e0, e1, e2] (fst (snd (start s))))) = Some t \<and>
              pc t = Handler x \<and> timestamp t = None) \<and>
         run [e0, e1, e2, e3] (fst (snd (start s))) =
           (s\<lparr>utilization_data := [], stop_event := False, start_time := Some (now e0),
              thread := Some \<lparr> pc = Finished (Some (UnboundLocalError ''timestamp'')),
                               gpu_util = None, timestamp = None \<rparr>\<rparr>,
            [(ERROR, Monitoring_thread_error x)])"
proof -
  have "read_load e2 (s\<lparr>utilization_data := [], stop_event := False,
          start_time := Some (now e0), thread := Some (new_thread\<lparr>pc := ReadFile\<rparr>)\<rparr>) = Inl x"
    using assms(2) by (simp add: read_load_def)
  with assms(1) show ?thesis
    by (simp add: start_state monitor_step_def new_thread_def)
qed

theorem first_read_failure_unbound_witness:
  "\<not> running example_sampler \<and>
   read_load (example_env 2 (Contents ''n/a'')) example_sampler =
     Inl (ValueError ''invalid literal for int() with base 10'') \<and>
   run [example_env 1 (Contents ''n/a''), example_env 1 (Contents ''n/a''),
        example_env 2 (Contents ''n/a''), example_env 2 (Contents ''n/a'')]
       (fst (snd (start example_sampler))) =
     (\<lparr> interval = 1 / 100, utilization_data = [], stop_event = False, start_time = Some 1,
        gpu_load_path = ''/sys/class/devfreq/17000000.gpu/device/load'',
        thread = Some \<lparr> pc = Finished (Some (UnboundLocalError ''timestamp'')),
                         gpu_util = None, timestamp = None \<rparr> \<rparr>,
      [(ERROR, Monitoring_thread_error (ValueError ''invalid literal for int() with base 10''))])"
proof -
  have a: "\<not> running example_sampler"
    by (simp add: running_def example_sampler_def)
  have b: "read_load (example_env 2 (Contents ''n/a'')) example_sampler =
             Inl (ValueError ''invalid literal for int() with base 10'')"
    by (rule read_load_malformed)
  from first_read_failure_unbound [OF a b, THEN conjunct2] a b show ?thesis
    by (simp add: example_sampler_def now_example_env)
qed

section \<open>\<open>start\<close>\<close>

lemma monitor_step_past_init:
  "past_init s \<Longrightarrow>
     past_init (fst (monitor_step e s)) \<and> start_time (fst (monitor_step e s)) = start_time s"
  by (auto simp: past_init_def monitor_step_def split: option.splits pc.splits sum.splits)

lemma run_past_init:
  "past_init s \<Longrightarrow> start_time (fst (run es s)) = start_time s"
proof (induction es arbitrary: s)
  case Nil
  show ?case by simp
next
  case (Cons e es)
  from monitor_step_past_init [OF Cons.prems, of e] Cons.IH [of "fst (monitor_step e s)"]
  show ?case by (simp only: fst_run_Cons)
qed

lemma run_from_init:
  assumes "thread s = Some t" and "pc t = Init"
  shows "start_time (fst (run (e # es) s)) = Some (now e)"
proof -
  let ?s1 = "s\<lparr>start_time := Some (now e), thread := Some (t\<lparr>pc := LoopTest\<rparr>)\<rparr>"
  have 1: "monitor_step e s = (?s1, [])" using assms by (simp add: monitor_step_def)
  have "past_init ?s1" by (simp add: past_init_def)
  from run_past_init [OF this, of es] 1 show ?thesis by (simp add: fst_run_Cons)
qed

lemma interval_monitor_step: "interval (fst (monitor_step e s)) = interval s"
  by (auto simp: monitor_step_def split: option.splits pc.splits sum.splits)

lemma interval_start: "interval (fst (snd (start s))) = interval s"
  by (simp add: start_def Let_def)

lemma interval_exec: "init e i = (Inr s, l) \<Longrightarrow> 0 < interval (exec as s)"
proof -
  have "interval (exec as s) = interval s"
    by (induction as s rule: exec.induct) (simp_all add: interval_monitor_step interval_start)
  moreover assume "init e i = (Inr s, l)"
  then have "0 < interval s"
    by (auto simp: init_def Let_def split: if_splits)
  ultimately show ?thesis by simp
qed

text \<open>
  Claim C3. While the thread is alive \<open>start\<close> raises the \<open>RuntimeError\<close> "Monitoring is
  already running" (the specification's AlreadyRunning) and leaves the sampler as it was.
  Otherwise it clears the samples and the stop event, launches a new thread and returns at
  once, with no sample taken yet; the first step of that thread sets the start instant to
  the clock of that moment, and it is never set again, so every sample of the session is
  appended after the start instant was reset. (The interval is not 0: that of a
  constructed sampler is positive and nothing changes it, see \<open>interval_exec\<close>.)
\<close>

theorem start_session:
  "(running s \<longrightarrow> start s = (Inl (RuntimeError ''Monitoring is already running''), s, [])) \<and>
   (\<not> running s \<and> interval s \<noteq> 0 \<longrightarrow>
      start s =
        (Inr (),
         s\<lparr>utilization_data := [], stop_event := False, thread := Some new_thread\<rparr>,
         [(DEBUG, Started_monitoring (1 / interval s))]) \<and>
      fst (is_running (fst (snd (start s)))) \<and>
      fst (get_data (fst (snd (start s)))) = [] \<and>
      (\<forall>e es. start_time (fst (run (e # es) (fst (snd (start s))))) = Some (now e)) \<and>
      (\<forall>es. utilization_data (fst (run es (fst (snd (start s))))) \<noteq> [] \<longrightarrow>
            es \<noteq> [] \<and> start_time (fst (run es (fst (snd (start s))))) = Some (now (hd es))))"
proof (intro conjI impI allI)
  show "start s = (Inl (RuntimeError ''Monitoring is already running''), s, [])" if "running s"
    using that by (simp add: start_def)
next
  assume "\<not> running s \<and> interval s \<noteq> 0"
  then have nr: "\<not> running s" and nz: "interval s \<noteq> 0" by simp_all
  let ?s' = "s\<lparr>utilization_data := [], stop_event := False, thread := Some new_thread\<rparr>"
  show eq: "start s = (Inr (), ?s', [(DEBUG, Started_monitoring (1 / interval s))])"
    using nr nz by (simp add: start_def)
  show "fst (is_running (fst (snd (start s))))"
    by (simp add: eq is_running_def running_def is_alive_def new_thread_def)
  show "fst (get_data (fst (snd (start s)))) = []"
    by (simp add: eq get_data_def)
  have th: "thread ?s' = Some new_thread" "pc new_thread = Init"
    by (simp_all add: new_thread_def)
  show st: "start_time (fst (run (e # es) (fst (snd (start s))))) = Some (now e)" for e es
    using run_from_init [OF th] by (simp add: eq)
  show "es \<noteq> []"
    if "utilization_data (fst (run es (fst (snd (start s))))) \<noteq> []" for es
    using that by (cases es) (simp_all add: eq)
  show "start_time (fst (run es (fst (snd (start s))))) = Some (now (hd es))"
    if "utilization_data (fst (run es (fst (snd (start s))))) \<noteq> []" for es
    using that st by (cases es) (simp_all add: eq)
qed

theorem start_session_witness:
  "running started_sampler \<and>
   start started_sampler =
     (Inl (RuntimeError ''Monitoring is already running''), started_sampler, []) \<and>
   \<not> running stats_sampler \<and> interval stats_sampler \<noteq> 0 \<and>
   start stats_sampler = (Inr (), started_sampler, [(DEBUG, Started_monitoring 100)]) \<and>
   start_time (fst (run [example_env 10 (Contents ''500'')] (fst (snd (start stats_sampler))))) =
     Some 10"
proof -
  have a: "running started_sampler"
    by (simp add: started_sampler_eq running_def is_alive_def)
  have b: "\<not> running stats_sampler \<and> interval stats_sampler \<noteq> 0"
    by (simp add: stats_sampler_def example_sampler_def running_def)
  from start_session [of started_sampler] a
  have 1: "start started_sampler =
             (Inl (RuntimeError ''Monitoring is already running''), started_sampler, [])"
    by blast
  from start_session [of stats_sampler] b
  have 2: "start stats_sampler =
             (Inr (),
              stats_sampler\<lparr>utilization_data := [], stop_event := False,
                            thread := Some new_thread\<rparr>,
              [(DEBUG, Started_monitoring (1 / interval stats_sampler))])"
    and 3: "\<forall>e es. start_time (fst (run (e # es) (fst (snd (start stats_sampler))))) = Some (now e)"
    by blast+
  from 2 have 4: "start stats_sampler = (Inr (), started_sampler, [(DEBUG, Started_monitoring 100)])"
    by (simp add: stats_sampler_def example_sampler_def started_sampler_eq new_thread_def)
  from 3 have "start_time (fst (run [example_env 10 (Contents ''500'')]
                 (fst (snd (start stats_sampler))))) = Some (now (example_env 10 (Contents ''500'')))"
    by blast
  then have 5: "start_time (fst (run [example_env 10 (Contents ''500'')]
                 (fst (snd (start stats_sampler))))) = Some 10"
    by (simp only: now_example_env)
  from a b 1 4 5 show ?thesis by blast
qed

section \<open>\<open>stop\<close>\<close>

lemma monitor_step_stop_rank:
  assumes "stop_event s" "running s"
  shows "stop_rank (fst (monitor_step e s)) < stop_rank s \<and> stop_event (fst (monitor_step e s))"
  using assms
  by (auto simp: running_def is_alive_def monitor_step_def stop_rank_def
           split: option.splits pc.splits sum.splits)

lemma stop_rank_bound: "stop_rank s \<le> 5"
  by (simp add: stop_rank_def split: option.splits pc.splits)

lemma thread_monitor_step: "thread s \<noteq> None \<Longrightarrow> thread (fst (monitor_step e s)) \<noteq> None"
  by (auto simp: monitor_step_def split: option.splits pc.splits sum.splits)

lemma thread_run: "thread s \<noteq> None \<Longrightarrow> thread (fst (run es s)) \<noteq> None"
proof (induction es arbitrary: s)
  case Nil
  then show ?case by simp
next
  case (Cons e es)
  show ?case unfolding fst_run_Cons
    by (rule Cons.IH [OF thread_monitor_step [OF Cons.prems]])
qed

text \<open>
  Once the stop event is set, \<open>join\<close> returns: the thread reaches the loop test or the
  end of the handler within \<open>stop_rank\<close> steps. What \<open>join\<close> returns is the state the
  thread's own steps lead to, with the thread ended.
\<close>

lemma join_returns:
  "stop_event s \<Longrightarrow>
     \<exists>n. n \<le> stop_rank s \<and>
         join es i s l =
            Some (fst (run (map es [i..<i + n]) s), l @ snd (run (map es [i..<i + n]) s)) \<and>
         \<not> running (fst (run (map es [i..<i + n]) s)) \<and>
         stop_event (fst (run (map es [i..<i + n]) s))"
proof (induction "stop_rank s" arbitrary: s i l rule: less_induct)
  case less
  show ?case
  proof (cases "running s")
    case False
    with less.prems have
      "0 \<le> stop_rank s \<and>
       join es i s l = Some (fst (run (map es [i..<i + 0]) s), l @ snd (run (map es [i..<i + 0]) s)) \<and>
       \<not> running (fst (run (map es [i..<i + 0]) s)) \<and>
       stop_event (fst (run (map es [i..<i + 0]) s))"
      by (subst join.simps) simp
    then show ?thesis by (rule exI)
  next
    case True
    obtain s1 l1 where st: "monitor_step (es i) s = (s1, l1)" by (cases "monitor_step (es i) s")
    from monitor_step_stop_rank [OF less.prems True, of "es i"] st
    have rk: "stop_rank s1 < stop_rank s" and ev: "stop_event s1" by simp_all
    from less.hyps [OF rk ev, of "Suc i" "l @ l1"]
    obtain n where n:
      "n \<le> stop_rank s1"
      "join es (Suc i) s1 (l @ l1) =
         Some (fst (run (map es [Suc i..<Suc i + n]) s1),
               (l @ l1) @ snd (run (map es [Suc i..<Suc i + n]) s1))"
      "\<not> running (fst (run (map es [Suc i..<Suc i + n]) s1))"
      "stop_event (fst (run (map es [Suc i..<Suc i + n]) s1))"
      by blast
    define fs where "fs = map es [Suc i..<Suc i + n]"
    have "[i..<i + Suc n] = i # [Suc i..<Suc i + n]"
      by (subst upt_rec) simp
    then have upt: "map es [i..<i + Suc n] = es i # fs"
      by (simp only: list.map fs_def)
    from n(2-4) have j: "join es i s l = Some (fst (run (es i # fs) s), l @ snd (run (es i # fs) s)) \<and>
          \<not> running (fst (run (es i # fs) s)) \<and> stop_event (fst (run (es i # fs) s))"
      unfolding fs_def [symmetric] using True st
      by (subst join.simps) (auto split: prod.splits)
    from n(1) rk have "Suc n \<le> stop_rank s" by simp
    with j have "Suc n \<le> stop_rank s \<and>
          join es i s l =
            Some (fst (run (map es [i..<i + Suc n]) s), l @ snd (run (map es [i..<i + Suc n]) s)) \<and>
          \<not> running (fst (run (map es [i..<i + Suc n]) s)) \<and>
          stop_event (fst (run (map es [i..<i + Suc n]) s))"
      unfolding upt by blast
    then show ?thesis by (rule exI)
  qed
qed

lemma exec_append: "exec (as @ bs) s = exec bs (exec as s)"
  by (induction as s rule: exec.induct) simp_all

lemma exec_monitor_steps: "exec (map Thread_step es) s = fst (run es s)"
  by (induction es arbitrary: s) (simp_all split: prod.splits)

text \<open>
  In a schedule, a \<open>stop\<close> that finds the thread alive is the setting of the stop event
  between steps of the thread.
\<close>

lemma stop_as_exec:
  assumes "running s"
  shows "\<exists>n s' l. stop k es s = Some (Inr (), s', l) \<and>
           s' = exec (map Thread_step (map es [0..<k]) @ Set_stop_event #
                      map Thread_step (map es [k..<k + n])) s"
proof -
  obtain s1 l1 where k: "run (map es [0..<k]) s = (s1, l1)"
    by (cases "run (map es [0..<k]) s")
  have "stop_event (s1\<lparr>stop_event := True\<rparr>)" by simp
  from join_returns [OF this, of es k l1]
  obtain n where "join es k (s1\<lparr>stop_event := True\<rparr>) l1 =
      Some (fst (run (map es [k..<k + n]) (s1\<lparr>stop_event := True\<rparr>)),
            l1 @ snd (run (map es [k..<k + n]) (s1\<lparr>stop_event := True\<rparr>)))"
    by blast
  with assms k have
    "stop k es s =
       Some (Inr (), fst (run (map es [k..<k + n]) (s1\<lparr>stop_event := True\<rparr>)),
             (l1 @ snd (run (map es [k..<k + n]) (s1\<lparr>stop_event := True\<rparr>))) @
               [(DEBUG, Stopped_monitoring)]) \<and>
     fst (run (map es [k..<k + n]) (s1\<lparr>stop_event := True\<rparr>)) =
       exec (map Thread_step (map es [0..<k]) @ Set_stop_event #
             map Thread_step (map es [k..<k + n])) s"
    by (simp add: stop_def exec_append exec_monitor_steps del: map_map)
  then show ?thesis by blast
qed

text \<open>
  Claim C4. When no thread is alive \<open>stop\<close> raises the \<open>RuntimeError\<close> "Monitoring is not
  running" (the specification's NotRunning) and leaves the sampler as it was. Otherwise it
  sets the stop event and joins the thread, and the join returns, whatever the thread was
  doing and whatever the file and the clock do. The sampler that \<open>stop\<close> returns is the
  one the thread leaves behind: the state after the \<open>k\<close> steps the thread took before the
  signal, with the stop event set, followed by \<open>n\<close> more steps of the thread, at most
  five, at the end of which the thread has finished. Nothing but the thread's own steps
  and the signal has touched the sampler; the stop event is set, the thread handle is that
  of the finished thread, and \<open>is_running\<close> is false. The log is that of the thread,
  followed by the debug message of \<open>stop\<close>.
\<close>

theorem stop_session:
  "(\<not> running s \<longrightarrow> stop k es s = Some (Inl (RuntimeError ''Monitoring is not running''), s, [])) \<and>
   (running s \<longrightarrow>
      (\<exists>n s1 l1 s2 l2.
         n \<le> 5 \<and>
         run (map es [0..<k]) s = (s1, l1) \<and>
         run (map es [k..<k + n]) (s1\<lparr>stop_event := True\<rparr>) = (s2, l2) \<and>
         stop k es s = Some (Inr (), s2, l1 @ l2 @ [(DEBUG, Stopped_monitoring)]) \<and>
         stop_event s2 \<and> fst (is_running s2) = False \<and>
         (\<exists>t r. thread s2 = Some t \<and> pc t = Finished r)))"
proof (intro conjI impI)
  show "stop k es s = Some (Inl (RuntimeError ''Monitoring is not running''), s, [])"
    if "\<not> running s"
    using that by (simp add: stop_def)
  show "\<exists>n s1 l1 s2 l2.
         n \<le> 5 \<and>
         run (map es [0..<k]) s = (s1, l1) \<and>
         run (map es [k..<k + n]) (s1\<lparr>stop_event := True\<rparr>) = (s2, l2) \<and>
         stop k es s = Some (Inr (), s2, l1 @ l2 @ [(DEBUG, Stopped_monitoring)]) \<and>
         stop_event s2 \<and> fst (is_running s2) = False \<and>
         (\<exists>t r. thread s2 = Some t \<and> pc t = Finished r)"
    if r: "running s"
  proof -
    obtain s1 l1 where k: "run (map es [0..<k]) s = (s1, l1)"
      by (cases "run (map es [0..<k]) s")
    let ?s = "s1\<lparr>stop_event := True\<rparr>"
    have "stop_event ?s" by simp
    from join_returns [OF this, of es k l1]
    obtain n where n: "n \<le> stop_rank ?s"
      and j: "join es k ?s l1 =
                Some (fst (run (map es [k..<k + n]) ?s), l1 @ snd (run (map es [k..<k + n]) ?s))"
      and nr: "\<not> running (fst (run (map es [k..<k + n]) ?s))"
      and ev: "stop_event (fst (run (map es [k..<k + n]) ?s))"
      by blast
    obtain s2 l2 where k2: "run (map es [k..<k + n]) ?s = (s2, l2)"
      by (cases "run (map es [k..<k + n]) ?s")
    from n stop_rank_bound [of ?s] have n5: "n \<le> 5" by simp
    from r have "thread s \<noteq> None" by (auto simp: running_def split: option.splits)
    from thread_run [OF this, of "map es [0..<k]"] k have "thread ?s \<noteq> None" by simp
    from thread_run [OF this, of "map es [k..<k + n]"] k2
    obtain t where t: "thread s2 = Some t" by auto
    from nr k2 t obtain r' where fin: "pc t = Finished r'"
      by (cases "pc t") (simp_all add: running_def is_alive_def)
    from r k j k2 have st: "stop k es s = Some (Inr (), s2, l1 @ l2 @ [(DEBUG, Stopped_monitoring)])"
      by (simp add: stop_def)
    from nr k2 have ir: "fst (is_running s2) = False" by (simp add: is_running_def)
    from ev k2 have ev2: "stop_event s2" by simp
    from n5 k k2 st ev2 ir t fin show ?thesis by blast
  qed
qed

text \<open>
  A stop that comes while the thread is between its first read and its first timestamp:
  the thread finishes the iteration, takes its sample, sees the event and ends.
\<close>

lemma stop_example:
  "stop 3 steady_env started_sampler =
     Some (Inr (),
       \<lparr> interval = 1 / 100, utilization_data = [(3, 500)], stop_event = True,
         start_time = Some 0,
         gpu_load_path = ''/sys/class/devfreq/17000000.gpu/device/load'',
         thread = Some \<lparr> pc = Finished None, gpu_util = Some 500, timestamp = Some 3 \<rparr> \<rparr>,
       [(DEBUG, Stopped_monitoring)])"
  by (simp add: stop_def started_sampler_eq running_def is_alive_def upt_rec [of 0]
        upt_rec [of "Suc 0"] upt_rec [of 2] numeral_2_eq_2 numeral_3_eq_3
        steady_env_def monitor_step_def read_load_500 now_example_env join.simps
        sleep_error_example)

theorem stop_session_witness:
  "\<not> running example_sampler \<and>
   stop 3 steady_env example_sampler =
     Some (Inl (RuntimeError ''Monitoring is not running''), example_sampler, []) \<and>
   running started_sampler \<and>
   (\<exists>n s1 l1 s2 l2.
      n \<le> 5 \<and>
      run (map steady_env [0..<3]) started_sampler = (s1, l1) \<and>
      run (map steady_env [3..<3 + n]) (s1\<lparr>stop_event := True\<rparr>) = (s2, l2) \<and>
      stop 3 steady_env started_sampler =
        Some (Inr (), s2, l1 @ l2 @ [(DEBUG, Stopped_monitoring)]) \<and>
      stop_event s2 \<and> fst (is_running s2) = False \<and>
      (\<exists>t r. thread s2 = Some t \<and> pc t = Finished r)) \<and>
   stop 3 steady_env started_sampler =
     Some (Inr (),
       \<lparr> interval = 1 / 100, utilization_data = [(3, 500)], stop_event = True,
         start_time = Some 0,
         gpu_load_path = ''/sys/class/devfreq/17000000.gpu/device/load'',
         thread = Some \<lparr> pc = Finished None, gpu_util = Some 500, timestamp = Some 3 \<rparr> \<rparr>,
       [(DEBUG, Stopped_monitoring)])"
proof -
  have a: "\<not> running example_sampler"
    by (simp add: running_def example_sampler_def)
  have b: "running started_sampler"
    by (simp add: started_sampler_eq running_def is_alive_def)
  note 1 = stop_session [of example_sampler 3 steady_env, THEN conjunct1, THEN mp, OF a]
  note 2 = stop_session [of started_sampler 3 steady_env, THEN conjunct2, THEN mp, OF b]
  show ?thesis by (intro conjI a b 1 2 stop_example)
qed

section \<open>The order of the timestamps\<close>

lemma session_inv_monitor_step:
  assumes "session_inv lo s" and "lo \<le> now e"
  shows "session_inv (now e) (fst (monitor_step e s))"
proof (cases "thread s")
  case None
  with assms show ?thesis by (simp add: session_inv_def timestamps_inv_def monitor_step_def)
next
  case (Some t)
  show ?thesis
  proof (cases "pc t")
    case Init
    with Some assms show ?thesis by (simp add: session_inv_def timestamps_inv_def monitor_step_def)
  next
    case LoopTest
    with Some assms show ?thesis
      by (auto simp: session_inv_def timestamps_inv_def monitor_step_def split: option.splits)
  next
    case ReadFile
    with Some assms show ?thesis
      by (auto simp: session_inv_def timestamps_inv_def monitor_step_def
               split: option.splits sum.splits)
  next
    case Stamp
    with Some assms show ?thesis
      by (fastforce simp: session_inv_def timestamps_inv_def monitor_step_def split: option.splits)
  next
    case Append
    with Some assms show ?thesis
      by (auto simp: session_inv_def timestamps_inv_def monitor_step_def sorted_append
               split: option.splits)
  next
    case Sleep
    with Some assms show ?thesis
      by (auto simp: session_inv_def timestamps_inv_def monitor_step_def split: option.splits)
  next
    case (Handler x)
    with Some assms show ?thesis
      by (auto simp: session_inv_def timestamps_inv_def monitor_step_def sorted_append
               split: option.splits)
  next
    case (Finished r)
    with Some assms show ?thesis by (simp add: session_inv_def timestamps_inv_def monitor_step_def)
  qed
qed

text \<open>A session that has just been started satisfies the invariant, whatever came before.\<close>

lemma session_inv_started: "\<not> running s \<Longrightarrow> session_inv lo (fst (snd (start s)))"
  by (simp add: start_state session_inv_def timestamps_inv_def new_thread_def)

lemma session_inv_start:
  assumes "session_inv lo s"
  shows "session_inv lo (fst (snd (start s)))"
proof (cases "running s")
  case True
  then have "fst (snd (start s)) = s" by (simp add: start_def)
  with assms show ?thesis by simp
next
  case False
  then show ?thesis by (rule session_inv_started)
qed

lemma session_inv_stop_event: "session_inv lo s \<Longrightarrow> session_inv lo (s\<lparr>stop_event := b\<rparr>)"
  by (simp add: session_inv_def)

lemma session_inv_exec:
  "session_inv lo s \<Longrightarrow> sorted (lo # clock as) \<Longrightarrow> \<exists>lo'. session_inv lo' (exec as s)"
proof (induction as arbitrary: lo s)
  case Nil
  then show ?case by auto
next
  case (Cons a as)
  show ?case
  proof (cases a)
    case (Thread_step e)
    with Cons.prems have "lo \<le> now e" "sorted (now e # clock as)" by simp_all
    from Cons.IH [OF session_inv_monitor_step [OF Cons.prems(1) this(1)] this(2)] Thread_step
    show ?thesis by simp
  next
    case Call_start
    with Cons.prems have "sorted (lo # clock as)" by simp
    from Cons.IH [OF session_inv_start [OF Cons.prems(1)] this] Call_start
    show ?thesis by simp
  next
    case Set_stop_event
    with Cons.prems have "sorted (lo # clock as)" by simp
    from Cons.IH [OF session_inv_stop_event [OF Cons.prems(1)] this] Set_stop_event
    show ?thesis by simp
  qed
qed

lemma session_inv_init: "init e i = (Inr s, l) \<Longrightarrow> session_inv lo s"
  by (auto simp: init_def Let_def session_inv_def timestamps_inv_def split: if_splits)

lemma sorted_clock_from: "sorted cs \<Longrightarrow> \<exists>lo::real. sorted (lo # cs)"
proof (cases cs)
  case Nil
  then show ?thesis by simp
next
  case (Cons c cs')
  assume "sorted cs"
  with Cons have "sorted (c # cs)" by simp
  then show ?thesis by (rule exI)
qed

text \<open>
  From construction on: in every schedule of a constructed sampler along which the wall
  clock never goes back, the data are in order.
\<close>

lemma timestamps_sorted_since_init:
  assumes "init e i = (Inr s, l)" and "sorted (clock as)"
  shows "sorted (map fst (fst (get_data (exec as s))))"
proof -
  from sorted_clock_from [OF assms(2)] obtain lo where "sorted (lo # clock as)" ..
  from session_inv_exec [OF session_inv_init [OF assms(1)] this]
  show ?thesis by (auto simp: session_inv_def timestamps_inv_def get_data_def)
qed

text \<open>
  Claim C7, as amended. Take a session: a \<open>start\<close> in any state in which no thread is
  alive, whatever the sampler has been through before and whatever the clock showed then,
  followed by any schedule of thread steps, stops and further calls of \<open>start\<close>. If the
  wall clock never goes back along that schedule, the sequence that \<open>get_data\<close> returns at
  its end has non-decreasing elapsed timestamps in append order, the sentinel of a failed
  read included.
\<close>

theorem timestamps_sorted:
  assumes "\<not> running s" and "sorted (clock bs)"
  shows "sorted (map fst (fst (get_data (exec (Call_start # bs) s))))"
proof -
  from sorted_clock_from [OF assms(2)] obtain lo where lo: "sorted (lo # clock bs)" ..
  from session_inv_exec [OF session_inv_started [OF assms(1), of lo] lo]
  show ?thesis by (auto simp: session_inv_def timestamps_inv_def get_data_def)
qed

lemma second_session_data:
  "fst (get_data (exec (Call_start # second_session) finished_sampler)) = [(3, 500), (3, 0)]"
  by (simp add: second_session_def finished_sampler_def get_data_def start_def running_def
        is_alive_def new_thread_def monitor_step_def read_load_500 read_load_malformed
        now_example_env sleep_error_example)

theorem timestamps_sorted_witness:
  "\<not> running finished_sampler \<and>
   \<not> sorted (map fst (utilization_data finished_sampler)) \<and>
   sorted (clock second_session) \<and>
   fst (get_data (exec (Call_start # second_session) finished_sampler)) = [(3, 500), (3, 0)] \<and>
   sorted (map fst (fst (get_data (exec (Call_start # second_session) finished_sampler))))"
proof -
  have a: "\<not> running finished_sampler"
    by (simp add: finished_sampler_def running_def is_alive_def)
  have b: "sorted (clock second_session)"
    by (simp add: second_session_def now_example_env)
  have c: "\<not> sorted (map fst (utilization_data finished_sampler))"
    by (simp add: finished_sampler_def)
  show ?thesis by (intro conjI a b c second_session_data timestamps_sorted [OF a b])
qed

text \<open>
  Claim C7 as stated fails: \<open>time.time()\<close> is the wall clock, and when it is set back
  during a session (here from 105 to 102) the later sample has the smaller timestamp.
\<close>

theorem timestamps_sorted_counterexample:
  "fst (get_data (exec backwards_trace example_sampler)) = [(5, 500), (2, 500)] \<and>
   \<not> sorted (map fst (fst (get_data (exec backwards_trace example_sampler))))"
  by (simp add: backwards_trace_def get_data_def start_def example_sampler_def running_def
        new_thread_def monitor_step_def read_load_500 now_example_env sleep_error_example)

end
